theory Spec2Isabelle
  imports Complex_Main
begin

section \<open>Detection decoding of the box head (\<open>bbox_head.py\<close>)\<close>

text \<open>
  The development embeds \<open>BBoxHead.get_bboxes\<close> and \<open>BBoxHead._get_bboxes_single\<close>.
  Conventions of the embedding:
  \<^item> a tensor of shape \<open>[n]\<close> is a list, one of shape \<open>[n, k]\<close> a list of rows, a box
    \<open>(y1, x1, y2, x2)\<close> a 4-tuple; 32-bit floats are read as real numbers;
  \<^item> an exception is a value \<open>Inl e\<close>; a returned value is \<open>Inr v\<close>;
  \<^item> Python resolves a name that a function neither binds nor receives in the globals of
    its module, at the time of the call. \<open>_get_bboxes_single\<close> reads two such names,
    \<open>deltas\<close> (line 119) and \<open>config\<close> (line 166), so the embedding takes the module
    namespace as an argument; \<open>module_globals\<close> is the namespace the file itself builds;
  \<^item> the operations of the tensor library are embedded by the values they compute,
    with the checks that make them raise: an empty reduction axis, an index out of range,
    a negative count, a threshold outside \<open>[0, 1]\<close>, a Python integer that does not fit
    the 32-bit operand it is converted to, rows of different lengths handed to
    \<open>tf.map_fn\<close> for stacking (line 159), and operands of different rank handed to
    \<open>tf.sets.set_intersection\<close> (line 162).
\<close>

subsection \<open>Data\<close>

type_synonym box = "real \<times> real \<times> real \<times> real"

datatype error =
    NameError string
  | ZeroDivisionError
  | InvalidArgumentError
  | IndexError
  | KeyError string
  | ValueError

text \<open>The attributes of \<open>self\<close> that decoding reads (lines 20 to 24).\<close>

record BBoxHead =
  min_confidence :: "real option"
  nms_threshold :: real
  max_instances :: int
  target_means :: box
  target_stds :: box

text \<open>The defaults of \<open>__init__\<close> (lines 9 to 13).\<close>

definition default_head :: BBoxHead where
  "default_head =
     \<lparr>min_confidence = Some 0.7, nms_threshold = 0.3, max_instances = 100,
      target_means = (0, 0, 0, 0), target_stds = (0.1, 0.1, 0.2, 0.2)\<rparr>"

record config_object =
  DETECTION_MAX_INSTANCES :: int

text \<open>
  The two global names that \<open>_get_bboxes_single\<close> reads and does not bind. The module
  binds \<open>tf\<close>, \<open>layers\<close>, \<open>transforms\<close> and \<open>BBoxHead\<close> only (lines 1 to 6).
\<close>

record namespace =
  ns_deltas :: "box list list option"
  ns_config :: "config_object option"

definition module_globals :: namespace where
  "module_globals = \<lparr>ns_deltas = None, ns_config = None\<rparr>"

text \<open>One row \<open>(y1, x1, y2, x2, class_id, score)\<close> of the returned tensor.\<close>

record detection =
  det_y1 :: real
  det_x1 :: real
  det_y2 :: real
  det_x2 :: real
  det_class_id :: real
  det_score :: real

subsection \<open>Operations of the tensor library\<close>

text \<open>Mapping a function that may raise over a list stops at the first exception.\<close>

fun map_err :: "('a \<Rightarrow> error + 'b) \<Rightarrow> 'a list \<Rightarrow> error + 'b list" where
  "map_err f [] = Inr []"
| "map_err f (x # xs) =
     (case f x of
        Inl e \<Rightarrow> Inl e
      | Inr y \<Rightarrow> (case map_err f xs of Inl e \<Rightarrow> Inl e | Inr ys \<Rightarrow> Inr (y # ys)))"

text \<open>
  \<open>tf.argmax\<close> along one row: the least index of a greatest entry; an empty reduction
  axis is rejected.
\<close>

fun argmax_from :: "nat \<Rightarrow> real \<Rightarrow> nat \<Rightarrow> real list \<Rightarrow> nat" where
  "argmax_from best bv i [] = best"
| "argmax_from best bv i (x # xs) =
     (if bv < x then argmax_from i x (Suc i) xs else argmax_from best bv (Suc i) xs)"

definition argmax :: "real list \<Rightarrow> error + nat" where
  "argmax row = (case row of [] \<Rightarrow> Inl InvalidArgumentError | x # xs \<Rightarrow> Inr (argmax_from 0 x 1 xs))"

text \<open>\<open>tf.gather\<close>; every use below gives indices within range.\<close>

definition gather :: "'a list \<Rightarrow> nat list \<Rightarrow> 'a list" where
  "gather params ixs = map (\<lambda>i. params ! i) ixs"

text \<open>\<open>tf.gather_nd\<close> with index pairs \<open>(i, c)\<close>; an index out of range is rejected.\<close>

definition gather_nd :: "'a list list \<Rightarrow> (nat \<times> nat) list \<Rightarrow> error + 'a list" where
  "gather_nd params indices =
     map_err (\<lambda>(i, c). if i < length params \<and> c < length (params ! i)
                        then Inr (params ! i ! c) else Inl InvalidArgumentError) indices"

text \<open>\<open>tf.where(cond)[:, 0]\<close> on a vector: the positions that hold, ascending.\<close>

definition where_true :: "('a \<Rightarrow> bool) \<Rightarrow> 'a list \<Rightarrow> nat list" where
  "where_true P xs = filter (\<lambda>i. P (xs ! i)) [0..<length xs]"

text \<open>
  \<open>tf.sets.set_intersection\<close> of two one-row operands followed by
  \<open>tf.sparse_tensor_to_dense(...)[0]\<close>: the common values, each once, ascending.
\<close>

definition set_intersection :: "nat list \<Rightarrow> nat list \<Rightarrow> nat list" where
  "set_intersection a b = sort (remdups (filter (\<lambda>x. x \<in> set b) a))"

text \<open>\<open>tf.unique(x)[0]\<close>: the distinct values in the order of their first occurrence.\<close>

definition unique :: "'a list \<Rightarrow> 'a list" where
  "unique xs = rev (remdups (rev xs))"

text \<open>
  A Python integer passed where the library expects a 32-bit integer tensor is
  converted, and rejected when it does not fit.
\<close>

definition int32_range :: "int \<Rightarrow> bool" where
  "int32_range n = (- 2147483648 \<le> n \<and> n \<le> 2147483647)"

text \<open>
  An index tensor of rank 1 or of rank 2. \<open>tf.map_fn\<close> stacks the results of the mapped
  function: no result gives the empty vector, results of one common length give a
  matrix with one row for each, results of different lengths are rejected.
\<close>

datatype index_tensor = Vector "nat list" | Matrix "nat list list"

definition entries :: "index_tensor \<Rightarrow> nat list" where
  "entries t = (case t of Vector v \<Rightarrow> v | Matrix m \<Rightarrow> concat m)"

definition map_fn :: "('a \<Rightarrow> error + nat list) \<Rightarrow> 'a list \<Rightarrow> error + index_tensor" where
  "map_fn fn elems =
     (case map_err fn elems of
        Inl e \<Rightarrow> Inl e
      | Inr [] \<Rightarrow> Inr (Vector [])
      | Inr (r # rs) \<Rightarrow>
          if list_all (\<lambda>r'. length r' = length r) rs then Inr (Matrix (r # rs))
          else Inl InvalidArgumentError)"

text \<open>
  Lines 162 to 164: \<open>tf.sets.set_intersection\<close> of \<open>tf.expand_dims(keep, 0)\<close>, of rank
  2, and \<open>tf.expand_dims(nms_keep, 0)\<close>, of the rank of \<open>nms_keep\<close> plus one. The two
  operands must have the same rank: a vector \<open>nms_keep\<close> is accepted, a matrix is
  rejected.
\<close>

definition set_intersection_expanded :: "nat list \<Rightarrow> index_tensor \<Rightarrow> error + nat list" where
  "set_intersection_expanded keep nms_keep =
     (case nms_keep of
        Vector v \<Rightarrow> Inr (set_intersection keep v)
      | Matrix m \<Rightarrow> Inl InvalidArgumentError)"

text \<open>
  The overlap measure of \<open>tf.image.non_max_suppression\<close>: corners are put in order,
  a box without area overlaps nothing.
\<close>

definition IOU :: "box \<Rightarrow> box \<Rightarrow> real" where
  "IOU a b =
     (case a of (ay1, ax1, ay2, ax2) \<Rightarrow> case b of (by1, bx1, by2, bx2) \<Rightarrow>
        let ymin_i = min ay1 ay2; xmin_i = min ax1 ax2;
            ymax_i = max ay1 ay2; xmax_i = max ax1 ax2;
            ymin_j = min by1 by2; xmin_j = min bx1 bx2;
            ymax_j = max by1 by2; xmax_j = max bx1 bx2;
            area_i = (ymax_i - ymin_i) * (xmax_i - xmin_i);
            area_j = (ymax_j - ymin_j) * (xmax_j - xmin_j)
        in if area_i \<le> 0 \<or> area_j \<le> 0 then 0
           else
             let intersection_ymin = max ymin_i ymin_j;
                 intersection_xmin = max xmin_i xmin_j;
                 intersection_ymax = min ymax_i ymax_j;
                 intersection_xmax = min xmax_i xmax_j;
                 intersection_area =
                   max (intersection_ymax - intersection_ymin) 0 *
                   max (intersection_xmax - intersection_xmin) 0
             in intersection_area / (area_i + area_j - intersection_area))"

text \<open>
  The greedy pass of \<open>tf.image.non_max_suppression\<close> over the candidates in descending
  order of score: a candidate is selected unless its overlap with a box selected before
  is greater than the threshold; the pass stops at \<open>max_output_size\<close> selections,
  a 32-bit integer.
\<close>

fun nms_loop :: "box list \<Rightarrow> real \<Rightarrow> nat \<Rightarrow> nat list \<Rightarrow> nat list \<Rightarrow> nat list" where
  "nms_loop boxes thr m selected [] = selected"
| "nms_loop boxes thr m selected (c # cs) =
     (if m \<le> length selected then selected
      else if \<exists>s \<in> set selected. thr < IOU (boxes ! c) (boxes ! s)
           then nms_loop boxes thr m selected cs
           else nms_loop boxes thr m (selected @ [c]) cs)"

definition non_max_suppression :: "box list \<Rightarrow> real list \<Rightarrow> int \<Rightarrow> real \<Rightarrow> error + nat list" where
  "non_max_suppression boxes scores max_output_size iou_threshold =
     (if \<not> int32_range max_output_size then Inl ValueError
      else if max_output_size < 0 \<or> iou_threshold < 0 \<or> 1 < iou_threshold
      then Inl InvalidArgumentError
      else Inr (nms_loop boxes iou_threshold (nat max_output_size) []
                  (sort_key (\<lambda>i. - (scores ! i)) [0..<length boxes])))"

text \<open>
  \<open>tf.nn.top_k(values, k, sorted=True)[1]\<close>: the positions of the \<open>k\<close> greatest
  values, greatest first, the lower position first among equal values.
\<close>

definition top_k :: "real list \<Rightarrow> int \<Rightarrow> error + nat list" where
  "top_k vals k =
     (if k < 0 \<or> int (length vals) < k then Inl InvalidArgumentError
      else Inr (take (nat k) (sort_key (\<lambda>i. - (vals ! i)) [0..<length vals])))"

subsection \<open>The box transforms\<close>

text \<open>
  Modelled from the spec: \<open>transforms.delta2bbox\<close> of \<open>detection.core.bbox\<close> is imported
  at line 4 and its source is absent. Section 4.1: undo the standardization
  (\<open>delta * stds + means\<close>), take the centre and size of the region, move the centre by
  the first two components times the size, scale the size by the exponential of the
  last two, return to corner form.
\<close>

definition decode :: "box \<Rightarrow> box \<Rightarrow> box \<Rightarrow> box \<Rightarrow> box" where
  "decode region delta means stds =
     (case region of (y1, x1, y2, x2) \<Rightarrow> case delta of (d0, d1, d2, d3) \<Rightarrow>
      case means of (m0, m1, m2, m3) \<Rightarrow> case stds of (s0, s1, s2, s3) \<Rightarrow>
        let dy = d0 * s0 + m0; dx = d1 * s1 + m1;
            dh = d2 * s2 + m2; dw = d3 * s3 + m3;
            h = y2 - y1; w = x2 - x1;
            cy = y1 + h / 2; cx = x1 + w / 2;
            cy' = cy + dy * h; cx' = cx + dx * w;
            h' = h * exp dh; w' = w * exp dw
        in (cy' - h' / 2, cx' - w' / 2, cy' + h' / 2, cx' + w' / 2))"

text \<open>
  Modelled from the spec: the batch form of \<open>transforms.delta2bbox\<close>, one delta for each
  region; section 7 makes a disagreement of the region counts fatal.
\<close>

definition delta2bbox :: "box list \<Rightarrow> box list \<Rightarrow> box \<Rightarrow> box \<Rightarrow> error + box list" where
  "delta2bbox rois deltas means stds =
     (if length rois \<noteq> length deltas then Inl InvalidArgumentError
      else Inr (map (\<lambda>(r, d). decode r d means stds) (zip rois deltas)))"

text \<open>
  Modelled from the spec: \<open>transforms.bbox_clip\<close> of \<open>detection.core.bbox\<close>, source
  absent. Section 4.1: each coordinate is clamped on its own into the window, the
  vertical ones into \<open>[wy1, wy2]\<close>, the horizontal ones into \<open>[wx1, wx2]\<close>; the window of
  the only call starts at \<open>(0, 0)\<close>.
\<close>

definition clamp :: "real \<Rightarrow> real \<Rightarrow> real \<Rightarrow> real" where
  "clamp lo hi v = max (min v hi) lo"

definition clip :: "box \<Rightarrow> box \<Rightarrow> box" where
  "clip region window =
     (case region of (y1, x1, y2, x2) \<Rightarrow> case window of (wy1, wx1, wy2, wx2) \<Rightarrow>
        (clamp wy1 wy2 y1, clamp wx1 wx2 x1, clamp wy1 wy2 y2, clamp wx1 wx2 x2))"

definition bbox_clip :: "box list \<Rightarrow> box \<Rightarrow> box list" where
  "bbox_clip boxes window = map (\<lambda>r. clip r window) boxes"

subsection \<open>The stages of \<open>_get_bboxes_single\<close>\<close>

text \<open>
  Lines 122 to 126: the deltas are applied, then the boxes are clipped to the window
  \<open>[0, 0, H/H, W/W]\<close>; Python's division raises when the divisor is zero.
\<close>

definition refine_rois :: "BBoxHead \<Rightarrow> box list \<Rightarrow> box list \<Rightarrow> real \<Rightarrow> real \<Rightarrow> error + box list" where
  "refine_rois self rois deltas_specific H W =
     (case delta2bbox rois deltas_specific (target_means self) (target_stds self) of
        Inl e \<Rightarrow> Inl e
      | Inr decoded \<Rightarrow>
          if H = 0 \<or> W = 0 then Inl ZeroDivisionError
          else Inr (bbox_clip decoded (0, 0, H / H, W / W)))"

text \<open>Python's truth value of \<open>self.min_confidence\<close>: \<open>None\<close> and \<open>0.0\<close> are false.\<close>

definition truthy :: "real option \<Rightarrow> bool" where
  "truthy v = (case v of None \<Rightarrow> False | Some x \<Rightarrow> x \<noteq> 0)"

text \<open>Line 129: the positions whose class is not the background.\<close>

definition background_filter :: "nat list \<Rightarrow> nat list" where
  "background_filter class_ids = where_true (\<lambda>c. 0 < c) class_ids"

text \<open>Lines 131 to 135: the confidence filter, entered when the threshold is true.\<close>

definition confidence_filter :: "BBoxHead \<Rightarrow> real list \<Rightarrow> nat list \<Rightarrow> nat list" where
  "confidence_filter self class_scores keep =
     (if truthy (min_confidence self)
      then let conf_keep = where_true (\<lambda>s. the (min_confidence self) \<le> s) class_scores
           in set_intersection keep conf_keep
      else keep)"

text \<open>Lines 144 to 156: suppression among the boxes of one class.\<close>

definition nms_keep_map ::
  "BBoxHead \<Rightarrow> nat list \<Rightarrow> nat list \<Rightarrow> real list \<Rightarrow> box list \<Rightarrow> nat \<Rightarrow> error + nat list" where
  "nms_keep_map self keep pre_nms_class_ids pre_nms_scores pre_nms_rois class_id =
     (let ixs = where_true (\<lambda>c. c = class_id) pre_nms_class_ids
      in case non_max_suppression (gather pre_nms_rois ixs) (gather pre_nms_scores ixs)
                (max_instances self) (nms_threshold self) of
           Inl e \<Rightarrow> Inl e
         | Inr class_keep \<Rightarrow> Inr (gather keep (gather ixs class_keep)))"

text \<open>
  Lines 139 to 160: the kept indices of each class present, stacked by \<open>tf.map_fn\<close>.
\<close>

definition nms_keep_rows ::
  "BBoxHead \<Rightarrow> nat list \<Rightarrow> real list \<Rightarrow> box list \<Rightarrow> nat list \<Rightarrow> error + index_tensor" where
  "nms_keep_rows self class_ids class_scores refined_rois keep =
     (let pre_nms_class_ids = gather class_ids keep;
          pre_nms_scores = gather class_scores keep;
          pre_nms_rois = gather refined_rois keep;
          unique_pre_nms_class_ids = unique pre_nms_class_ids
      in map_fn (nms_keep_map self keep pre_nms_class_ids pre_nms_scores pre_nms_rois)
           unique_pre_nms_class_ids)"

text \<open>
  Lines 137 to 164: per-class suppression and the intersection with its input. The
  source does not flatten \<open>nms_keep\<close> before line 162, so the intersection is reached
  with a matrix whenever a class is present.
\<close>

definition per_class_nms ::
  "BBoxHead \<Rightarrow> nat list \<Rightarrow> real list \<Rightarrow> box list \<Rightarrow> nat list \<Rightarrow> error + nat list" where
  "per_class_nms self class_ids class_scores refined_rois keep =
     (case nms_keep_rows self class_ids class_scores refined_rois keep of
        Inl e \<Rightarrow> Inl e
      | Inr nms_keep \<Rightarrow> set_intersection_expanded keep nms_keep)"

text \<open>
  Lines 167 to 170: the indices of the \<open>roi_count\<close> best scores, best first;
  \<open>tf.minimum\<close> converts \<open>roi_count\<close> to a 32-bit integer.
\<close>

definition top_detections :: "int \<Rightarrow> real list \<Rightarrow> nat list \<Rightarrow> error + nat list" where
  "top_detections roi_count class_scores keep =
     (let class_scores_keep = gather class_scores keep
      in if \<not> int32_range roi_count then Inl ValueError
         else
           let num_keep = min (int (length class_scores_keep)) roi_count
           in case top_k class_scores_keep num_keep of
                Inl e \<Rightarrow> Inl e
              | Inr top_ids \<Rightarrow> Inr (gather keep top_ids))"

text \<open>Lines 172 to 176: the rows of the result, boxes scaled to the image.\<close>

definition make_detection :: "box list \<Rightarrow> nat list \<Rightarrow> real list \<Rightarrow> real \<Rightarrow> real \<Rightarrow> nat \<Rightarrow> detection" where
  "make_detection refined_rois class_ids class_scores H W i =
     (case refined_rois ! i of (y1, x1, y2, x2) \<Rightarrow>
        \<lparr>det_y1 = y1 * H, det_x1 = x1 * W, det_y2 = y2 * H, det_x2 = x2 * W,
         det_class_id = real (class_ids ! i), det_score = class_scores ! i\<rparr>)"

definition make_detections ::
  "box list \<Rightarrow> nat list \<Rightarrow> real list \<Rightarrow> real \<Rightarrow> real \<Rightarrow> nat list \<Rightarrow> detection list" where
  "make_detections refined_rois class_ids class_scores H W keep =
     map (make_detection refined_rois class_ids class_scores H W) keep"

subsection \<open>\<open>_get_bboxes_single\<close> and \<open>get_bboxes\<close>\<close>

text \<open>
  Lines 103 to 178, in the order of the source. The parameter \<open>rcnn_deltas\<close> is not read:
  line 119 reads the global name \<open>deltas\<close>.
\<close>

definition get_bboxes_single ::
  "namespace \<Rightarrow> BBoxHead \<Rightarrow> real list list \<Rightarrow> box list list \<Rightarrow> box list \<Rightarrow> real \<times> real
     \<Rightarrow> error + detection list" where
  "get_bboxes_single ns self rcnn_probs rcnn_deltas rois img_shape =
     (case img_shape of (H, W) \<Rightarrow>
     (case map_err argmax rcnn_probs of Inl e \<Rightarrow> Inl e | Inr class_ids \<Rightarrow>
     (let indices = zip [0..<length rcnn_probs] class_ids;
          class_scores = map (\<lambda>(i, c). rcnn_probs ! i ! c) indices
      in
     (case ns_deltas ns of None \<Rightarrow> Inl (NameError ''deltas'') | Some deltas \<Rightarrow>
     (case gather_nd deltas indices of Inl e \<Rightarrow> Inl e | Inr deltas_specific \<Rightarrow>
     (case refine_rois self rois deltas_specific H W of
        Inl e \<Rightarrow> Inl e | Inr refined_rois \<Rightarrow>
     (let keep = confidence_filter self class_scores (background_filter class_ids)
      in
     (case per_class_nms self class_ids class_scores refined_rois keep of
        Inl e \<Rightarrow> Inl e | Inr keep \<Rightarrow>
     (case ns_config ns of None \<Rightarrow> Inl (NameError ''config'') | Some config \<Rightarrow>
     (case top_detections (DETECTION_MAX_INSTANCES config) class_scores keep of
        Inl e \<Rightarrow> Inl e | Inr keep \<Rightarrow>
      Inr (make_detections refined_rois class_ids class_scores H W keep)))))))))))"

text \<open>
  Lines 96 to 101: one call for each entry of \<open>img_meta_list\<close>; a list that is too
  short raises \<open>IndexError\<close>, a dictionary without \<open>img_shape\<close> raises \<open>KeyError\<close>.
\<close>

definition get_bboxes_at ::
  "namespace \<Rightarrow> BBoxHead \<Rightarrow> real list list list \<Rightarrow> box list list list \<Rightarrow> box list list
     \<Rightarrow> (string \<rightharpoonup> real \<times> real) list \<Rightarrow> nat \<Rightarrow> error + detection list" where
  "get_bboxes_at ns self rcnn_probs_list rcnn_deltas_list rois_list img_meta_list i =
     (if length rcnn_probs_list \<le> i \<or> length rcnn_deltas_list \<le> i \<or> length rois_list \<le> i
      then Inl IndexError
      else case (img_meta_list ! i) ''img_shape'' of
             None \<Rightarrow> Inl (KeyError ''img_shape'')
           | Some img_shape \<Rightarrow>
               get_bboxes_single ns self (rcnn_probs_list ! i) (rcnn_deltas_list ! i)
                 (rois_list ! i) img_shape)"

definition get_bboxes ::
  "namespace \<Rightarrow> BBoxHead \<Rightarrow> real list list list \<Rightarrow> box list list list \<Rightarrow> box list list
     \<Rightarrow> (string \<rightharpoonup> real \<times> real) list \<Rightarrow> error + detection list list" where
  "get_bboxes ns self rcnn_probs_list rcnn_deltas_list rois_list img_meta_list =
     map_err (get_bboxes_at ns self rcnn_probs_list rcnn_deltas_list rois_list img_meta_list)
       [0..<length img_meta_list]"


subsection \<open>Concrete inputs\<close>

text \<open>
  Three regions and two classes, class 0 the background; all deltas zero; the second
  and the third region overlap with \<open>IOU = 0.8\<close>; an image of 100 by 200 pixels.
\<close>

definition scen_probs :: "real list list" where
  "scen_probs = [[0.9, 0.1], [0.05, 0.95], [0.1, 0.9]]"

definition scen_deltas :: "box list list" where
  "scen_deltas =
     [[(0, 0, 0, 0), (0, 0, 0, 0)], [(0, 0, 0, 0), (0, 0, 0, 0)], [(0, 0, 0, 0), (0, 0, 0, 0)]]"

definition scen_rois :: "box list" where
  "scen_rois = [(0, 0, 0.5, 0.5), (0.2, 0.2, 0.6, 0.6), (0.2, 0.2, 0.6, 0.7)]"

text \<open>
  The same three regions with scores that make the background the top class of each,
  and a namespace in which both global names are bound.
\<close>

definition background_probs :: "real list list" where
  "background_probs = [[0.9, 0.1], [0.8, 0.2], [0.7, 0.3]]"

definition bound_globals :: namespace where
  "bound_globals =
     \<lparr>ns_deltas = Some scen_deltas, ns_config = Some \<lparr>DETECTION_MAX_INSTANCES = 100\<rparr>\<rparr>"



section \<open>Properties\<close>

subsection \<open>Library operations\<close>

lemma argmax_Nil: "argmax [] = Inl InvalidArgumentError"
  by (simp add: argmax_def)

lemma argmax_Cons: "argmax (x # xs) = Inr (argmax_from 0 x 1 xs)"
  by (simp add: argmax_def)

lemma argmax_from_less:
  "best < i \<Longrightarrow> argmax_from best bv i xs < i + length xs"
proof (induction xs arbitrary: best bv i)
  case Nil
  then show ?case by simp
next
  case (Cons x xs)
  have "argmax_from i x (Suc i) xs < Suc i + length xs"
    by (rule Cons.IH) simp
  moreover have "argmax_from best bv (Suc i) xs < Suc i + length xs"
    by (rule Cons.IH) (use Cons.prems in simp)
  ultimately show ?case by simp
qed

lemma argmax_less: "argmax row = Inr c \<Longrightarrow> c < length row"
  using argmax_from_less [of 0 1] by (cases row) (auto simp: argmax_Nil argmax_Cons)

lemma map_err_length: "map_err f xs = Inr ys \<Longrightarrow> length ys = length xs"
  by (induction xs arbitrary: ys) (auto split: sum.splits)

lemma map_err_nth:
  "map_err f xs = Inr ys \<Longrightarrow> i < length xs \<Longrightarrow> f (xs ! i) = Inr (ys ! i)"
proof (induction xs arbitrary: ys i)
  case Nil
  then show ?case by simp
next
  case (Cons x xs)
  then show ?case by (cases i) (auto split: sum.splits)
qed

lemma map_err_mem:
  "map_err f xs = Inr ys \<Longrightarrow> y \<in> set ys \<Longrightarrow> \<exists>x \<in> set xs. f x = Inr y"
  by (induction xs arbitrary: ys) (auto split: sum.splits)

lemma map_err_head: "map_err f (x # xs) = Inr ys \<Longrightarrow> \<exists>y. f x = Inr y"
  by (auto split: sum.splits)

lemma map_err_head_error: "f x = Inl e \<Longrightarrow> map_err f (x # xs) = Inl e"
  by simp

lemma map_err_argmax_total:
  "\<forall>row \<in> set rcnn_probs. row \<noteq> [] \<Longrightarrow> \<exists>class_ids. map_err argmax rcnn_probs = Inr class_ids"
proof (induction rcnn_probs)
  case Nil
  then show ?case by simp
next
  case (Cons row rows)
  then obtain cs where "map_err argmax rows = Inr cs" by auto
  moreover from Cons.prems obtain x xs where "row = x # xs" by (cases row) auto
  ultimately show ?case by (simp add: argmax_Cons)
qed

lemma set_where_true: "set (where_true P xs) = {i. i < length xs \<and> P (xs ! i)}"
  by (auto simp: where_true_def)

lemma distinct_where_true: "distinct (where_true P xs)"
  by (simp add: where_true_def)

lemma set_set_intersection: "set (set_intersection a b) = set a \<inter> set b"
  by (auto simp: set_intersection_def)

lemma distinct_set_intersection: "distinct (set_intersection a b)"
  by (simp add: set_intersection_def)

lemma set_gather: "set ixs \<subseteq> {..<length params} \<Longrightarrow> set (gather params ixs) \<subseteq> set params"
  by (auto simp: gather_def)

lemma length_gather: "length (gather params ixs) = length ixs"
  by (simp add: gather_def)

lemma top_k_props:
  assumes "top_k vals k = Inr ids"
  shows "distinct ids" and "set ids \<subseteq> {..<length vals}" and "int (length ids) = k"
proof -
  from assms have k: "0 \<le> k" "k \<le> int (length vals)"
    and ids: "ids = take (nat k) (sort_key (\<lambda>i. - (vals ! i)) [0..<length vals])"
    by (auto simp: top_k_def split: if_splits)
  show "distinct ids" unfolding ids by (rule distinct_take) simp
  have "set ids \<subseteq> set (sort_key (\<lambda>i. - (vals ! i)) [0..<length vals])"
    unfolding ids by (rule set_take_subset)
  then show "set ids \<subseteq> {..<length vals}" by auto
  show "int (length ids) = k" unfolding ids using k by simp
qed

lemma top_detections_props:
  assumes "top_detections roi_count class_scores keep = Inr keep'"
  shows "set keep' \<subseteq> set keep" and "int (length keep') \<le> roi_count"
    and "distinct keep \<Longrightarrow> distinct keep'"
proof -
  from assms obtain top_ids where
    tk: "top_k (gather class_scores keep) (min (int (length keep)) roi_count) = Inr top_ids"
    and k': "keep' = gather keep top_ids"
    by (auto simp: top_detections_def Let_def length_gather split: sum.splits if_splits)
  note p = top_k_props [OF tk]
  from p(2) show "set keep' \<subseteq> set keep"
    unfolding k' by (intro set_gather) (simp add: length_gather)
  from p(3) show "int (length keep') \<le> roi_count"
    unfolding k' by (simp add: length_gather)
  show "distinct keep'" if "distinct keep"
    unfolding k' gather_def distinct_map
  proof
    show "distinct top_ids" by (rule p(1))
    from p(2) have "set top_ids \<subseteq> {..<length keep}" by (simp add: length_gather)
    then have "\<forall>i \<in> set top_ids. i < length keep" by auto
    with that show "inj_on ((!) keep) (set top_ids)"
      by (simp add: inj_on_def nth_eq_iff_index_eq)
  qed
qed

subsection \<open>Overlap and suppression\<close>

lemma IOU_commute: "IOU a b = IOU b a"
  by (cases a; cases b) (simp add: IOU_def Let_def min.commute max.commute add.commute disj_commute)









lemma nms_loop_subset:
  "set (nms_loop boxes thr m selected cs) \<subseteq> set selected \<union> set cs"
proof (induction cs arbitrary: selected)
  case Nil
  then show ?case by simp
next
  case (Cons c cs)
  have a: "set (nms_loop boxes thr m selected cs) \<subseteq> set selected \<union> set cs"
    by (rule Cons.IH)
  have b: "set (nms_loop boxes thr m (selected @ [c]) cs) \<subseteq> set (selected @ [c]) \<union> set cs"
    by (rule Cons.IH)
  show ?case using a b by (simp only: nms_loop.simps split: if_split) auto
qed

lemma nms_loop_distinct:
  "distinct selected \<Longrightarrow> distinct cs \<Longrightarrow> set selected \<inter> set cs = {}
     \<Longrightarrow> distinct (nms_loop boxes thr m selected cs)"
proof (induction cs arbitrary: selected)
  case Nil
  then show ?case by simp
next
  case (Cons c cs)
  have a: "distinct (nms_loop boxes thr m selected cs)"
    by (rule Cons.IH) (use Cons.prems in auto)
  have b: "distinct (nms_loop boxes thr m (selected @ [c]) cs)"
    by (rule Cons.IH) (use Cons.prems in auto)
  show ?case using a b Cons.prems(1) by (simp only: nms_loop.simps split: if_split) simp
qed

lemma nms_loop_length:
  "length selected \<le> m \<Longrightarrow> length (nms_loop boxes thr m selected cs) \<le> m"
proof (induction cs arbitrary: selected)
  case Nil
  then show ?case by simp
next
  case (Cons c cs)
  have a: "length (nms_loop boxes thr m selected cs) \<le> m"
    by (rule Cons.IH) (rule Cons.prems)
  have b: "length (nms_loop boxes thr m (selected @ [c]) cs) \<le> m" if "\<not> m \<le> length selected"
    by (rule Cons.IH) (use that in simp)
  show ?case using a b Cons.prems by (simp only: nms_loop.simps split: if_split) simp
qed

lemma nms_loop_pairwise:
  assumes "\<forall>a \<in> set selected. \<forall>b \<in> set selected. a \<noteq> b \<longrightarrow> IOU (boxes ! a) (boxes ! b) \<le> thr"
  shows "\<forall>a \<in> set (nms_loop boxes thr m selected cs).
           \<forall>b \<in> set (nms_loop boxes thr m selected cs).
             a \<noteq> b \<longrightarrow> IOU (boxes ! a) (boxes ! b) \<le> thr"
  using assms
proof (induction cs arbitrary: selected)
  case Nil
  then show ?case by simp
next
  case (Cons c cs)
  show ?case
  proof (cases "m \<le> length selected \<or> (\<exists>s \<in> set selected. thr < IOU (boxes ! c) (boxes ! s))")
    case True
    then show ?thesis using Cons by auto
  next
    case False
    then have ok: "\<forall>s \<in> set selected. IOU (boxes ! c) (boxes ! s) \<le> thr"
      by (auto simp: not_less)
    have "\<forall>a \<in> set (selected @ [c]). \<forall>b \<in> set (selected @ [c]).
            a \<noteq> b \<longrightarrow> IOU (boxes ! a) (boxes ! b) \<le> thr"
    proof (intro ballI impI)
      fix a b
      assume a: "a \<in> set (selected @ [c])" and b: "b \<in> set (selected @ [c])" and ne: "a \<noteq> b"
      show "IOU (boxes ! a) (boxes ! b) \<le> thr"
      proof (cases "a = c")
        case True
        with b ne have "b \<in> set selected" by auto
        with ok True show ?thesis by simp
      next
        case a_old: False
        with a have a': "a \<in> set selected" by auto
        show ?thesis
        proof (cases "b = c")
          case True
          from ok a' have "IOU (boxes ! c) (boxes ! a) \<le> thr" by simp
          then show ?thesis unfolding True by (subst IOU_commute)
        next
          case False
          with b have "b \<in> set selected" by auto
          with Cons.prems a' ne show ?thesis by simp
        qed
      qed
    qed
    from Cons.IH [OF this] show ?thesis using False by simp
  qed
qed

lemma nth_gather: "k < length ixs \<Longrightarrow> gather params ixs ! k = params ! (ixs ! k)"
  by (simp add: gather_def)

lemma non_max_suppression_props:
  assumes "non_max_suppression boxes scores m thr = Inr sel"
  shows "set sel \<subseteq> {..<length boxes}"
    and "\<forall>a \<in> set sel. \<forall>b \<in> set sel. a \<noteq> b \<longrightarrow> IOU (boxes ! a) (boxes ! b) \<le> thr"
    and "int (length sel) \<le> m"
proof -
  from assms have m: "0 \<le> m"
    and sel: "sel = nms_loop boxes thr (nat m) [] (sort_key (\<lambda>i. - (scores ! i)) [0..<length boxes])"
    by (auto simp: non_max_suppression_def split: if_splits)
  have "set sel \<subseteq> set [] \<union> set (sort_key (\<lambda>i. - (scores ! i)) [0..<length boxes])"
    unfolding sel by (rule nms_loop_subset)
  then show "set sel \<subseteq> {..<length boxes}" by auto
  show "\<forall>a \<in> set sel. \<forall>b \<in> set sel. a \<noteq> b \<longrightarrow> IOU (boxes ! a) (boxes ! b) \<le> thr"
    unfolding sel by (rule nms_loop_pairwise) simp
  have "length sel \<le> nat m"
    unfolding sel by (rule nms_loop_length) simp
  with m show "int (length sel) \<le> m" by simp
qed

lemma nms_keep_map_props:
  assumes "nms_keep_map self keep (gather class_ids keep) (gather class_scores keep)
             (gather refined_rois keep) class_id = Inr row"
  shows "set row \<subseteq> set keep"
    and "\<forall>i \<in> set row. class_ids ! i = class_id"
    and "\<forall>i \<in> set row. \<forall>j \<in> set row.
           i \<noteq> j \<longrightarrow> IOU (refined_rois ! i) (refined_rois ! j) \<le> nms_threshold self"
proof -
  define ixs where "ixs = where_true (\<lambda>c. c = class_id) (gather class_ids keep)"
  define boxes where "boxes = gather (gather refined_rois keep) ixs"
  from assms obtain class_keep where
    nms: "non_max_suppression boxes (gather (gather class_scores keep) ixs)
            (max_instances self) (nms_threshold self) = Inr class_keep"
    and row: "row = gather keep (gather ixs class_keep)"
    by (auto simp: nms_keep_map_def Let_def ixs_def boxes_def split: sum.splits)
  note p = non_max_suppression_props [OF nms]
  have ixs: "j < length keep \<and> class_ids ! (keep ! j) = class_id" if "j \<in> set ixs" for j
    using that by (auto simp: ixs_def set_where_true length_gather nth_gather)
  have sel: "a < length ixs" if "a \<in> set class_keep" for a
    using that p(1) by (auto simp: boxes_def length_gather)
  have row_eq: "row = map (\<lambda>a. keep ! (ixs ! a)) class_keep"
    by (simp add: row gather_def)
  have box: "boxes ! a = refined_rois ! (keep ! (ixs ! a))" if "a \<in> set class_keep" for a
  proof -
    from that have a: "a < length ixs" by (rule sel)
    then have "ixs ! a \<in> set ixs" by simp
    then have "ixs ! a < length keep" using ixs by blast
    with a show ?thesis by (simp add: boxes_def nth_gather)
  qed
  show "set row \<subseteq> set keep"
  proof
    fix i assume "i \<in> set row"
    then obtain a where a: "a \<in> set class_keep" and i: "i = keep ! (ixs ! a)"
      by (auto simp: row_eq)
    from sel [OF a] have "ixs ! a \<in> set ixs" by simp
    then have "ixs ! a < length keep" using ixs by blast
    then show "i \<in> set keep" by (simp add: i)
  qed
  show "\<forall>i \<in> set row. class_ids ! i = class_id"
  proof
    fix i assume "i \<in> set row"
    then obtain a where a: "a \<in> set class_keep" and i: "i = keep ! (ixs ! a)"
      by (auto simp: row_eq)
    from sel [OF a] have "ixs ! a \<in> set ixs" by simp
    then show "class_ids ! i = class_id" using ixs by (simp add: i)
  qed
  show "\<forall>i \<in> set row. \<forall>j \<in> set row.
          i \<noteq> j \<longrightarrow> IOU (refined_rois ! i) (refined_rois ! j) \<le> nms_threshold self"
  proof (intro ballI impI)
    fix i j assume "i \<in> set row" "j \<in> set row" and ne: "i \<noteq> j"
    then obtain a b where a: "a \<in> set class_keep" and i: "i = keep ! (ixs ! a)"
      and b: "b \<in> set class_keep" and j: "j = keep ! (ixs ! b)"
      by (auto simp: row_eq)
    from ne i j have "a \<noteq> b" by auto
    with p(2) a b have "IOU (boxes ! a) (boxes ! b) \<le> nms_threshold self" by blast
    then show "IOU (refined_rois ! i) (refined_rois ! j) \<le> nms_threshold self"
      by (simp add: box [OF a] box [OF b] i j)
  qed
qed

lemma map_fn_entries:
  assumes "map_fn fn elems = Inr t" and "i \<in> set (entries t)"
  shows "\<exists>x \<in> set elems. \<exists>row. fn x = Inr row \<and> i \<in> set row"
proof -
  from assms(1) obtain rows where rows: "map_err fn elems = Inr rows"
    by (auto simp: map_fn_def split: sum.splits)
  with assms have "i \<in> set (concat rows)"
    by (auto simp: map_fn_def entries_def split: list.splits if_splits)
  then obtain row where "row \<in> set rows" and i: "i \<in> set row" by auto
  from map_err_mem [OF rows this(1)] i show ?thesis by blast
qed

lemma map_fn_Vector:
  assumes "map_fn fn elems = Inr (Vector v)"
  shows "v = []" and "elems = []"
proof -
  from assms obtain rows where rows: "map_err fn elems = Inr rows"
    by (auto simp: map_fn_def split: sum.splits)
  with assms have "v = [] \<and> rows = []"
    by (auto simp: map_fn_def split: list.splits if_splits)
  with map_err_length [OF rows] show "v = []" and "elems = []" by simp_all
qed

lemma unique_Nil: "unique xs = [] \<Longrightarrow> xs = []"
  by (simp add: unique_def)

lemma nms_keep_rows_mem:
  assumes "nms_keep_rows self class_ids class_scores refined_rois keep = Inr nms_keep"
    and "i \<in> set (entries nms_keep)"
  shows "\<exists>class_id row. nms_keep_map self keep (gather class_ids keep) (gather class_scores keep)
           (gather refined_rois keep) class_id = Inr row \<and> i \<in> set row"
  using map_fn_entries [OF assms(1) [unfolded nms_keep_rows_def Let_def] assms(2)] by blast

lemma nms_keep_rows_subset:
  assumes "nms_keep_rows self class_ids class_scores refined_rois keep = Inr nms_keep"
  shows "set (entries nms_keep) \<subseteq> set keep"
proof
  fix i assume "i \<in> set (entries nms_keep)"
  from nms_keep_rows_mem [OF assms this] obtain c row where
    "nms_keep_map self keep (gather class_ids keep) (gather class_scores keep)
       (gather refined_rois keep) c = Inr row" and i: "i \<in> set row" by blast
  from nms_keep_map_props(1) [OF this(1)] i show "i \<in> set keep" by blast
qed

lemma nms_keep_rows_pairwise:
  assumes "nms_keep_rows self class_ids class_scores refined_rois keep = Inr nms_keep"
    and "i \<in> set (entries nms_keep)" and "j \<in> set (entries nms_keep)"
    and "i \<noteq> j" and "class_ids ! i = class_ids ! j"
  shows "IOU (refined_rois ! i) (refined_rois ! j) \<le> nms_threshold self"
proof -
  from nms_keep_rows_mem [OF assms(1,2)] obtain ci ri where
    ci: "nms_keep_map self keep (gather class_ids keep) (gather class_scores keep)
       (gather refined_rois keep) ci = Inr ri" and i: "i \<in> set ri" by blast
  from nms_keep_rows_mem [OF assms(1,3)] obtain cj rj where
    cj: "nms_keep_map self keep (gather class_ids keep) (gather class_scores keep)
       (gather refined_rois keep) cj = Inr rj" and j: "j \<in> set rj" by blast
  from nms_keep_map_props(2) [OF ci] i have "class_ids ! i = ci" by blast
  moreover from nms_keep_map_props(2) [OF cj] j have "class_ids ! j = cj" by blast
  ultimately have "ci = cj" using assms(5) by simp
  with ci cj have "ri = rj" by simp
  with j have "j \<in> set ri" by simp
  with nms_keep_map_props(3) [OF ci] i assms(4) show ?thesis by blast
qed

text \<open>
  Line 162 is reached with a matrix as soon as one position is kept, so lines 137 to
  164 return only when nothing was kept.
\<close>

lemma per_class_nms_props:
  assumes "per_class_nms self class_ids class_scores refined_rois keep = Inr keep'"
  shows "keep = []" and "keep' = []"
proof -
  from assms obtain v where
    rows: "nms_keep_rows self class_ids class_scores refined_rois keep = Inr (Vector v)"
    and k: "keep' = set_intersection keep v"
    by (auto simp: per_class_nms_def set_intersection_expanded_def
        split: sum.splits index_tensor.splits)
  note m = map_fn_Vector [OF rows [unfolded nms_keep_rows_def Let_def]]
  from unique_Nil [OF m(2)] show "keep = []" by (simp add: gather_def)
  with k show "keep' = []" by (simp add: set_intersection_def)
qed

subsection \<open>The stages of decoding\<close>

lemma set_background_filter:
  "set (background_filter class_ids) = {i. i < length class_ids \<and> 0 < class_ids ! i}"
  by (simp add: background_filter_def set_where_true)

lemma confidence_filter_subset: "set (confidence_filter self class_scores keep) \<subseteq> set keep"
  by (simp add: confidence_filter_def Let_def set_set_intersection)

lemma get_bboxes_single_returns:
  assumes "get_bboxes_single ns self rcnn_probs rcnn_deltas rois (H, W) = Inr dets"
  obtains class_ids class_scores deltas deltas_specific refined_rois keep keep' keep'' config
  where "map_err argmax rcnn_probs = Inr class_ids"
    and "class_scores = map (\<lambda>(i, c). rcnn_probs ! i ! c) (zip [0..<length rcnn_probs] class_ids)"
    and "ns_deltas ns = Some deltas"
    and "gather_nd deltas (zip [0..<length rcnn_probs] class_ids) = Inr deltas_specific"
    and "refine_rois self rois deltas_specific H W = Inr refined_rois"
    and "keep = confidence_filter self class_scores (background_filter class_ids)"
    and "per_class_nms self class_ids class_scores refined_rois keep = Inr keep'"
    and "ns_config ns = Some config"
    and "top_detections (DETECTION_MAX_INSTANCES config) class_scores keep' = Inr keep''"
    and "dets = make_detections refined_rois class_ids class_scores H W keep''"
  using assms
  by (auto simp: get_bboxes_single_def Let_def split: sum.splits option.splits)

text \<open>
  With both names bound, a call returns only the empty list: a kept position makes
  line 162 raise.
\<close>

lemma returns_nothing:
  assumes "get_bboxes_single ns self rcnn_probs rcnn_deltas rois img_shape = Inr dets"
  shows "dets = []"
proof -
  obtain H W where s: "img_shape = (H, W)" by (cases img_shape)
  from assms [unfolded s] show ?thesis
  proof (rule get_bboxes_single_returns)
    fix class_ids class_scores refined_rois keep keep' keep'' config
    assume n: "per_class_nms self class_ids class_scores refined_rois keep = Inr keep'"
      and t: "top_detections (DETECTION_MAX_INSTANCES config) class_scores keep' = Inr keep''"
      and d: "dets = make_detections refined_rois class_ids class_scores H W keep''"
    from top_detections_props(1) [OF t] per_class_nms_props(2) [OF n] have "keep'' = []"
      by simp
    then show ?thesis by (simp add: d make_detections_def)
  qed
qed






subsection \<open>The unbound names\<close>

lemma deltas_unbound:
  assumes "ns_deltas ns = None"
  shows "get_bboxes_single ns self rcnn_probs rcnn_deltas rois img_shape =
           (case map_err argmax rcnn_probs of
              Inl e \<Rightarrow> Inl e
            | Inr class_ids \<Rightarrow> Inl (NameError ''deltas''))"
  using assms by (simp add: get_bboxes_single_def Let_def split: prod.splits sum.splits)

lemma config_unbound:
  assumes "ns_config ns = None"
  shows "get_bboxes_single ns self rcnn_probs rcnn_deltas rois img_shape \<noteq> Inr dets"
  using assms
  by (simp add: get_bboxes_single_def Let_def split: prod.splits sum.splits option.splits)

lemma get_bboxes_first:
  assumes "img_meta_list \<noteq> []"
  shows "get_bboxes ns self pl dl rl img_meta_list =
           (case get_bboxes_at ns self pl dl rl img_meta_list 0 of
              Inl e \<Rightarrow> Inl e
            | Inr y \<Rightarrow>
                (case map_err (get_bboxes_at ns self pl dl rl img_meta_list)
                        [Suc 0..<length img_meta_list] of
                   Inl e \<Rightarrow> Inl e
                 | Inr ys \<Rightarrow> Inr (y # ys)))"
proof -
  from assms have "[0..<length img_meta_list] = 0 # [Suc 0..<length img_meta_list]"
    by (simp add: upt_conv_Cons)
  then show ?thesis by (simp add: get_bboxes_def)
qed

subsection \<open>Evaluation on the concrete inputs\<close>

lemma upt3: "[0..<3] = [0, 1, 2]"
  by (simp add: upt_rec)

lemma upt2: "[0..<2] = [0, 1]"
  by (simp add: upt_rec)

lemma upt1: "[0..<1] = [0]"
  by (simp add: upt_rec)

lemmas decoding_defs =
  argmax_Cons gather_nd_def delta2bbox_def decode_def bbox_clip_def refine_rois_def
  clip_def clamp_def confidence_filter_def background_filter_def where_true_def truthy_def
  set_intersection_def set_intersection_expanded_def map_fn_def entries_def int32_range_def
  per_class_nms_def nms_keep_rows_def nms_keep_map_def gather_def
  unique_def non_max_suppression_def IOU_def Let_def top_detections_def top_k_def
  make_detections_def make_detection_def upt3 upt2 upt1

text \<open>With both names bound and no position kept, the call returns the empty list.\<close>

lemma background_only_result:
  "get_bboxes_single bound_globals default_head background_probs scen_deltas scen_rois (100, 200)
     = Inr []"
  by (simp add: get_bboxes_single_def background_probs_def scen_deltas_def scen_rois_def
      bound_globals_def default_head_def decoding_defs)

text \<open>With both names bound and positions kept, line 162 raises.\<close>

lemma scenario_bound_raises:
  "get_bboxes_single bound_globals default_head scen_probs scen_deltas scen_rois (100, 200)
     = Inl InvalidArgumentError"
  by (simp add: get_bboxes_single_def scen_probs_def scen_deltas_def scen_rois_def
      bound_globals_def default_head_def decoding_defs)

lemma scen_nms_keep_map:
  "nms_keep_map default_head [1, 2] (gather [0, 1, 1] [1, 2]) (gather [0.9, 0.95, 0.9] [1, 2])
     (gather scen_rois [1, 2]) 1 = Inr [1]"
  by (simp add: scen_rois_def default_head_def decoding_defs)

lemma scen_nms_keep_rows:
  "nms_keep_rows default_head [0, 1, 1] [0.9, 0.95, 0.9] scen_rois [1, 2] = Inr (Matrix [[1]])"
  by (simp add: scen_rois_def default_head_def decoding_defs)

lemma empty_per_class_nms:
  "per_class_nms default_head [0, 0, 0] [0.9, 0.8, 0.7] scen_rois [] = Inr []"
  by (simp add: decoding_defs)



lemma truncating_top_detections:
  "top_detections 2 [0.9, 0.5, 0.7] [0, 1, 2] = Inr [0, 2]"
  by (simp add: decoding_defs)




section \<open>The claims\<close>

text \<open>
  C1. The concrete scenario of the specification (three regions, two classes, zero
  deltas, default thresholds) does not produce the expected detection: the call
  raises the \<open>NameError\<close> of line 119.
\<close>

theorem concrete_scenario_raises:
  "get_bboxes_single module_globals default_head scen_probs scen_deltas scen_rois (100, 200) =
     Inl (NameError ''deltas'')"
  by (simp add: deltas_unbound module_globals_def scen_probs_def argmax_Cons)

text \<open>
  C2. In the namespace that the module builds, every call of \<open>_get_bboxes_single\<close> ends
  in an exception and returns no detections: with a score matrix that \<open>tf.argmax\<close>
  accepts (no empty row) the exception is the \<open>NameError\<close> for \<open>deltas\<close> of line 119.
  The name \<open>config\<close> of line 166 is unbound as well: whatever \<open>deltas\<close> is bound to, a
  call returns nothing while \<open>config\<close> is unbound. \<open>get_bboxes\<close> makes one such call for
  each image, so on a batch with at least one image it returns nothing either, and it
  raises the same \<open>NameError\<close> when its first image is well formed.
\<close>
theorem unbound_names_raise:
  "((\<forall>row \<in> set rcnn_probs. row \<noteq> []) \<longrightarrow>
      get_bboxes_single module_globals self rcnn_probs rcnn_deltas rois img_shape =
        Inl (NameError ''deltas''))
   \<and> (\<forall>dets. get_bboxes_single module_globals self rcnn_probs rcnn_deltas rois img_shape
         \<noteq> Inr dets)
   \<and> (ns_config ns = None \<longrightarrow>
        (\<forall>dets. get_bboxes_single ns self rcnn_probs rcnn_deltas rois img_shape \<noteq> Inr dets))
   \<and> (img_meta_list \<noteq> [] \<longrightarrow>
        (\<forall>out. get_bboxes module_globals self pl dl rl img_meta_list \<noteq> Inr out))
   \<and> (img_meta_list \<noteq> [] \<and> pl \<noteq> [] \<and> dl \<noteq> [] \<and> rl \<noteq> [] \<and>
        (img_meta_list ! 0) ''img_shape'' = Some shape0 \<and> (\<forall>row \<in> set (pl ! 0). row \<noteq> []) \<longrightarrow>
        get_bboxes module_globals self pl dl rl img_meta_list = Inl (NameError ''deltas''))"
proof -
  have unbound: "ns_deltas module_globals = None" "ns_config module_globals = None"
    by (simp_all add: module_globals_def)
  have single: "get_bboxes_single module_globals self' probs rd rs sh = Inl (NameError ''deltas'')"
    if "\<forall>row \<in> set probs. row \<noteq> []" for self' probs rd rs sh
  proof -
    from that obtain cs where "map_err argmax probs = Inr cs"
      using map_err_argmax_total by blast
    then show ?thesis by (simp add: deltas_unbound [OF unbound(1)])
  qed
  have never: "get_bboxes_single module_globals self' probs rd rs sh \<noteq> Inr dets"
    for self' probs rd rs sh dets
    by (rule config_unbound [OF unbound(2)])
  have at0: "get_bboxes_at module_globals self pl dl rl img_meta_list 0 \<noteq> Inr y" for y
    using never by (simp add: get_bboxes_at_def split: option.splits)
  have batch: "get_bboxes module_globals self pl dl rl img_meta_list \<noteq> Inr out"
    if "img_meta_list \<noteq> []" for out
    using at0 by (simp add: get_bboxes_first [OF that] split: sum.splits)
  have batch_name:
    "get_bboxes module_globals self pl dl rl img_meta_list = Inl (NameError ''deltas'')"
    if "img_meta_list \<noteq> []" "pl \<noteq> []" "dl \<noteq> []" "rl \<noteq> []"
      "(img_meta_list ! 0) ''img_shape'' = Some shape0" "\<forall>row \<in> set (pl ! 0). row \<noteq> []"
  proof -
    have "get_bboxes_at module_globals self pl dl rl img_meta_list 0 = Inl (NameError ''deltas'')"
      using that single [OF that(6)] by (simp add: get_bboxes_at_def)
    then show ?thesis by (simp add: get_bboxes_first [OF that(1)])
  qed
  show ?thesis
    using single never config_unbound batch batch_name by blast
qed

theorem unbound_names_raise_witness:
  "get_bboxes_single module_globals default_head [[0.2, 0.8]] [[(0, 0, 0, 0), (0, 0, 0, 0)]]
     [(0, 0, 1, 1)] (480, 640) = Inl (NameError ''deltas'')
   \<and> get_bboxes module_globals default_head [[[0.2, 0.8]]] [[[(0, 0, 0, 0), (0, 0, 0, 0)]]]
       [[(0, 0, 1, 1)]] [[''img_shape'' \<mapsto> (480, 640)]] = Inl (NameError ''deltas'')"
  using unbound_names_raise [of "[[0.2, 0.8]]" default_head "[[(0, 0, 0, 0), (0, 0, 0, 0)]]"
      "[(0, 0, 1, 1)]" "(480, 640)" module_globals "[[''img_shape'' \<mapsto> (480, 640)]]"
      "[[[0.2, 0.8]]]" "[[[(0, 0, 0, 0), (0, 0, 0, 0)]]]" "[[(0, 0, 1, 1)]]" "(480, 640)"]
  by simp

text \<open>
  C3. Lines 167 to 176 build at most \<open>roi_count\<close> rows from any list of kept positions:
  \<open>num_keep\<close> is the minimum of their number and \<open>roi_count\<close>, \<open>tf.nn.top_k\<close> selects
  that many, and one row is built for each. Hence a call of \<open>_get_bboxes_single\<close>
  that returns has \<open>config\<close> bound and returns at most
  \<open>config.DETECTION_MAX_INSTANCES\<close> rows.
\<close>

theorem detections_at_most_max:
  "(top_detections roi_count class_scores keep = Inr keep' \<longrightarrow>
      int (length (make_detections refined_rois class_ids class_scores H W keep')) \<le> roi_count)
   \<and> (get_bboxes_single ns self rcnn_probs rcnn_deltas rois img_shape = Inr dets \<longrightarrow>
        (\<exists>config. ns_config ns = Some config
           \<and> int (length dets) \<le> DETECTION_MAX_INSTANCES config))"
proof (intro conjI impI)
  assume "top_detections roi_count class_scores keep = Inr keep'"
  from top_detections_props(2) [OF this]
  show "int (length (make_detections refined_rois class_ids class_scores H W keep')) \<le> roi_count"
    by (simp add: make_detections_def)
next
  assume r: "get_bboxes_single ns self rcnn_probs rcnn_deltas rois img_shape = Inr dets"
  obtain H' W' where s: "img_shape = (H', W')" by (cases img_shape)
  from r [unfolded s]
  show "\<exists>config. ns_config ns = Some config \<and> int (length dets) \<le> DETECTION_MAX_INSTANCES config"
  proof (rule get_bboxes_single_returns)
    fix class_ids class_scores refined_rois keep' keep'' config
    assume c: "ns_config ns = Some config"
      and t: "top_detections (DETECTION_MAX_INSTANCES config) class_scores keep' = Inr keep''"
      and d: "dets = make_detections refined_rois class_ids class_scores H' W' keep''"
    from top_detections_props(2) [OF t] have "int (length dets) \<le> DETECTION_MAX_INSTANCES config"
      by (simp add: d make_detections_def)
    with c show ?thesis by blast
  qed
qed

theorem detections_at_most_max_witness:
  "top_detections 2 [0.9, 0.5, 0.7] [0, 1, 2] = Inr [0, 2]
   \<and> int (length (make_detections scen_rois [1, 1, 1] [0.9, 0.5, 0.7] 100 200 [0, 2])) \<le> 2
   \<and> get_bboxes_single bound_globals default_head background_probs scen_deltas scen_rois
        (100, 200) = Inr []
   \<and> (\<exists>config. ns_config bound_globals = Some config
         \<and> int (length ([] :: detection list)) \<le> DETECTION_MAX_INSTANCES config)"
  using detections_at_most_max
          [of 2 "[0.9, 0.5, 0.7]" "[0, 1, 2]" "[0, 2]" scen_rois "[1, 1, 1]" 100 200
              bound_globals default_head background_probs scen_deltas scen_rois "(100, 200)" "[]"]
        truncating_top_detections background_only_result
  by simp







text \<open>
  C6. Line 129 keeps no position whose class id is 0, and whatever the later stages
  select among the positions that pass the filters of lines 129 to 135, the rows
  built from them (lines 167 to 176) have a class id of at least 1. Hence no row
  that \<open>_get_bboxes_single\<close> returns has class id 0.
\<close>

theorem no_background_detection:
  "(class_ids ! i = 0 \<longrightarrow> i \<notin> set (background_filter class_ids))
   \<and> (set keep \<subseteq> set (confidence_filter self class_scores (background_filter class_ids))
        \<and> top_detections roi_count class_scores keep = Inr keep' \<longrightarrow>
        (\<forall>d \<in> set (make_detections refined_rois class_ids class_scores H W keep').
           det_class_id d \<noteq> 0 \<and> 1 \<le> det_class_id d))
   \<and> (get_bboxes_single ns self rcnn_probs rcnn_deltas rois img_shape = Inr dets \<longrightarrow>
        (\<forall>d \<in> set dets. det_class_id d \<noteq> 0))"
proof (intro conjI impI)
  assume "class_ids ! i = 0"
  then show "i \<notin> set (background_filter class_ids)"
    by (simp add: set_background_filter)
next
  assume a: "set keep \<subseteq> set (confidence_filter self class_scores (background_filter class_ids))
             \<and> top_detections roi_count class_scores keep = Inr keep'"
  then have "set keep' \<subseteq> set keep" using top_detections_props(1) by blast
  with a confidence_filter_subset
  have sub: "set keep' \<subseteq> set (background_filter class_ids)" by blast
  show "\<forall>d \<in> set (make_detections refined_rois class_ids class_scores H W keep').
          det_class_id d \<noteq> 0 \<and> 1 \<le> det_class_id d"
  proof
    fix d assume "d \<in> set (make_detections refined_rois class_ids class_scores H W keep')"
    then obtain k where k: "k \<in> set keep'"
      and d: "d = make_detection refined_rois class_ids class_scores H W k"
      by (auto simp: make_detections_def)
    from sub k have "0 < class_ids ! k" by (auto simp: set_background_filter)
    then show "det_class_id d \<noteq> 0 \<and> 1 \<le> det_class_id d"
      by (simp add: d make_detection_def split: prod.splits)
  qed
next
  assume "get_bboxes_single ns self rcnn_probs rcnn_deltas rois img_shape = Inr dets"
  from returns_nothing [OF this] show "\<forall>d \<in> set dets. det_class_id d \<noteq> 0" by simp
qed

theorem no_background_detection_witness:
  "0 \<notin> set (background_filter [0, 1, 1])
   \<and> confidence_filter default_head [0.9, 0.95, 0.9] (background_filter [0, 1, 1]) = [1, 2]
   \<and> top_detections 100 [0.9, 0.95, 0.9] [1, 2] = Inr [1, 2]
   \<and> map det_class_id (make_detections scen_rois [0, 1, 1] [0.9, 0.95, 0.9] 100 200 [1, 2])
       = [1, 1]
   \<and> get_bboxes_single bound_globals default_head background_probs scen_deltas scen_rois
        (100, 200) = Inr []"
proof -
  have f: "confidence_filter default_head [0.9, 0.95, 0.9] (background_filter [0, 1, 1]) = [1, 2]"
    by (simp add: default_head_def decoding_defs)
  have t: "top_detections 100 [0.9, 0.95, 0.9] [1, 2] = Inr [1, 2]"
    by (simp add: decoding_defs)
  have m: "map det_class_id (make_detections scen_rois [0, 1, 1] [0.9, 0.95, 0.9] 100 200 [1, 2])
       = [1, 1]"
    by (simp add: make_detections_def make_detection_def scen_rois_def)
  from no_background_detection
         [of "[0, 1, 1]" 0 "[1, 2]" default_head "[0.9, 0.95, 0.9]" 100 "[1, 2]" scen_rois
             100 200 bound_globals background_probs scen_deltas scen_rois "(100, 200)" "[]"]
  have "0 \<notin> set (background_filter [0, 1, 1])" by simp
  with f t m background_only_result show ?thesis by simp
qed

text \<open>
  C7. With zero regions the call does not return the empty sequence: the read of
  \<open>deltas\<close> at line 119 does not depend on the number of regions and raises.
\<close>

theorem zero_regions_raise:
  "get_bboxes_single module_globals self [] rcnn_deltas [] img_shape = Inl (NameError ''deltas'')"
  by (simp add: deltas_unbound module_globals_def)

text \<open>
  C8. The indices that per-class suppression keeps are among the indices it was
  given: each result of \<open>nms_keep_map\<close> is gathered from \<open>keep\<close> (line 155), so every
  entry of \<open>nms_keep\<close> (line 159) is an element of \<open>keep\<close>, and what lines 162 to 164
  return is a subset of \<open>keep\<close> as well.
\<close>

theorem nms_keeps_only_survivors:
  "(nms_keep_map self keep (gather class_ids keep) (gather class_scores keep)
      (gather refined_rois keep) class_id = Inr class_keep \<longrightarrow> set class_keep \<subseteq> set keep)
   \<and> (nms_keep_rows self class_ids class_scores refined_rois keep = Inr nms_keep \<longrightarrow>
        set (entries nms_keep) \<subseteq> set keep)
   \<and> (per_class_nms self class_ids class_scores refined_rois keep = Inr keep' \<longrightarrow>
        set keep' \<subseteq> set keep)"
proof (intro conjI impI)
  assume "nms_keep_map self keep (gather class_ids keep) (gather class_scores keep)
            (gather refined_rois keep) class_id = Inr class_keep"
  then show "set class_keep \<subseteq> set keep" by (rule nms_keep_map_props(1))
next
  assume "nms_keep_rows self class_ids class_scores refined_rois keep = Inr nms_keep"
  then show "set (entries nms_keep) \<subseteq> set keep" by (rule nms_keep_rows_subset)
next
  assume "per_class_nms self class_ids class_scores refined_rois keep = Inr keep'"
  from per_class_nms_props(2) [OF this] show "set keep' \<subseteq> set keep" by simp
qed

theorem nms_keeps_only_survivors_witness:
  "nms_keep_map default_head [1, 2] (gather [0, 1, 1] [1, 2]) (gather [0.9, 0.95, 0.9] [1, 2])
     (gather scen_rois [1, 2]) 1 = Inr [1]
   \<and> nms_keep_rows default_head [0, 1, 1] [0.9, 0.95, 0.9] scen_rois [1, 2] = Inr (Matrix [[1]])
   \<and> entries (Matrix [[1]]) = [1]
   \<and> per_class_nms default_head [0, 0, 0] [0.9, 0.8, 0.7] scen_rois [] = Inr []"
proof -
  from nms_keeps_only_survivors
         [of default_head "[1, 2]" "[0, 1, 1]" "[0.9, 0.95, 0.9]" scen_rois 1 "[1]"
             "Matrix [[1]]" "[]"]
    scen_nms_keep_map scen_nms_keep_rows
  have "set (entries (Matrix [[1]])) \<subseteq> set [1, 2 :: nat]" by simp
  with scen_nms_keep_map scen_nms_keep_rows empty_per_class_nms show ?thesis
    by (simp add: entries_def)
qed

text \<open>
  C9. Decoding a region with the zero delta under the default means \<open>(0, 0, 0, 0)\<close>
  returns the region itself, for any standard deviations; so does the batch form on
  a list of regions. Over the reals the identity is exact.
\<close>

theorem zero_delta_is_identity:
  "decode region (0, 0, 0, 0) (target_means default_head) stds = region
   \<and> delta2bbox rois (replicate (length rois) (0, 0, 0, 0)) (target_means default_head) stds
       = Inr rois"
proof -
  have one: "decode r (0, 0, 0, 0) (0, 0, 0, 0) stds = r" for r
    by (cases r; cases stds) (simp add: decode_def Let_def)
  have "map (\<lambda>(r, d). decode r d (0, 0, 0, 0) stds) (zip rois (replicate (length rois) (0, 0, 0, 0)))
        = rois"
    by (induction rois) (simp_all add: one)
  then show ?thesis by (simp add: one delta2bbox_def default_head_def)
qed
text \<open>
  C10. Lines 131 to 135: when \<open>self.min_confidence\<close> is \<open>None\<close> or \<open>0.0\<close> the filter is
  not entered and the positions kept are unchanged, whatever their scores; when it
  is a number other than zero, exactly the positions whose score is at least the
  threshold remain.
\<close>

theorem confidence_filter_only_when_truthy:
  "(min_confidence self = None \<or> min_confidence self = Some 0 \<longrightarrow>
      confidence_filter self class_scores keep = keep)
   \<and> (min_confidence self = Some t \<and> t \<noteq> 0 \<longrightarrow>
        set (confidence_filter self class_scores keep)
          = {i \<in> set keep. i < length class_scores \<and> t \<le> class_scores ! i})"
  by (auto simp: confidence_filter_def truthy_def Let_def set_set_intersection set_where_true)

theorem confidence_filter_only_when_truthy_witness:
  "confidence_filter (default_head\<lparr>min_confidence := None\<rparr>) [0.01, 0.9] [0, 1] = [0, 1]
   \<and> confidence_filter (default_head\<lparr>min_confidence := Some 0\<rparr>) [0.01, 0.9] [0, 1] = [0, 1]
   \<and> set (confidence_filter default_head [0.01, 0.9] [0, 1]) = {1}"
proof -
  have "{i \<in> set [0, 1 :: nat]. i < length [0.01, 0.9 :: real] \<and> 0.7 \<le> [0.01, 0.9 :: real] ! i}
        = {1}"
    by (auto simp: nth_Cons')
  then show ?thesis
    using confidence_filter_only_when_truthy
            [of "default_head\<lparr>min_confidence := None\<rparr>" "[0.01, 0.9]" "[0, 1]" "0.7"]
          confidence_filter_only_when_truthy
            [of "default_head\<lparr>min_confidence := Some 0\<rparr>" "[0.01, 0.9]" "[0, 1]" "0.7"]
          confidence_filter_only_when_truthy [of default_head "[0.01, 0.9]" "[0, 1]" "0.7"]
    by (simp add: default_head_def)
qed

end
